theory Spec2Isabelle
  imports Complex_Main
begin

section \<open>JavaScript values\<close>

text \<open>
  The geocoder of \<^verbatim>\<open>src/modules/geo-coding.ts\<close> reads the upstream answer as an
  untyped value (\<^verbatim>\<open>item: any\<close>), so the model keeps the values as the
  runtime has them. A number is a double: only whether it is \<^verbatim>\<open>NaN\<close> or zero is
  ever inspected, so a finite double is represented by the real it denotes.
\<close>

datatype number = NaN | PosInfinity | NegInfinity | Finite real

datatype jsval =
    JUndefined
  | JNull
  | JBool bool
  | JNumber number
  | JString string
  | JArray "jsval list"
  | JObject "(string \<times> jsval) list"

text \<open>
  A thrown value: an instance of \<^verbatim>\<open>Error\<close> with its message, or anything else.
  The catch blocks of the source only ask \<^verbatim>\<open>error instanceof Error\<close>.
\<close>

datatype thrown = ErrorInstance string | NonError

definition and_then :: "thrown + 'a \<Rightarrow> ('a \<Rightarrow> thrown + 'b) \<Rightarrow> thrown + 'b" where
  "and_then r f = (case r of Inl e \<Rightarrow> Inl e | Inr x \<Rightarrow> f x)"

text \<open>\<^verbatim>\<open>a || b\<close> and \<^verbatim>\<open>!a\<close> test truthiness.\<close>

definition truthy :: "jsval \<Rightarrow> bool" where
  "truthy v =
     (case v of
        JUndefined \<Rightarrow> False
      | JNull \<Rightarrow> False
      | JBool b \<Rightarrow> b
      | JNumber n \<Rightarrow> n \<noteq> NaN \<and> n \<noteq> Finite 0
      | JString s \<Rightarrow> s \<noteq> []
      | JArray xs \<Rightarrow> True
      | JObject kvs \<Rightarrow> True)"

definition nullish :: "jsval \<Rightarrow> bool" where
  "nullish v = (v = JUndefined \<or> v = JNull)"

definition type_name :: "jsval \<Rightarrow> string" where
  "type_name v = (if v = JNull then ''null'' else ''undefined'')"

text \<open>
  \<^verbatim>\<open>v.key\<close> for the field names the source reads from the upstream JSON
  (\<^verbatim>\<open>name\<close>, \<^verbatim>\<open>display_name\<close>, \<^verbatim>\<open>lat\<close>, \<^verbatim>\<open>lon\<close>, \<^verbatim>\<open>address\<close>,
  \<^verbatim>\<open>country\<close>, \<^verbatim>\<open>county\<close>, \<^verbatim>\<open>state\<close>). None of them is a built-in property of
  arrays, strings, numbers or booleans, so only an object can hold one; reading a
  property of \<^verbatim>\<open>null\<close> or \<^verbatim>\<open>undefined\<close> throws a TypeError (message as Node prints
  it; nothing below depends on its wording).
\<close>

definition json_field :: "jsval \<Rightarrow> string \<Rightarrow> jsval" where
  "json_field v key =
     (case v of
        JObject kvs \<Rightarrow> (case map_of kvs key of Some x \<Rightarrow> x | None \<Rightarrow> JUndefined)
      | _ \<Rightarrow> JUndefined)"

definition field :: "jsval \<Rightarrow> string \<Rightarrow> thrown + jsval" where
  "field v key =
     (if nullish v
      then Inl (ErrorInstance (''Cannot read properties of '' @ type_name v @
                  '' (reading '' @ [CHR 0x27] @ key @ [CHR 0x27] @ '')''))
      else Inr (json_field v key))"

text \<open>\<^verbatim>\<open>v?.key\<close>: \<^verbatim>\<open>undefined\<close> when \<^verbatim>\<open>v\<close> is nullish.\<close>

definition optional_field :: "jsval \<Rightarrow> string \<Rightarrow> thrown + jsval" where
  "optional_field v key = (if nullish v then Inr JUndefined else field v key)"

text \<open>
  \<^verbatim>\<open>v.split(',')[0]\<close>. Only a string has a \<^verbatim>\<open>split\<close> method: the first segment
  is the text before the first comma (the whole string when it has none). On
  \<^verbatim>\<open>null\<close> and \<^verbatim>\<open>undefined\<close> the property read throws; on every other value
  \<^verbatim>\<open>split\<close> is not a function (a JSON object can hold a field of that name, never a
  function), and the call throws.
\<close>

definition split_comma_first :: "jsval \<Rightarrow> thrown + jsval" where
  "split_comma_first v =
     (case v of
        JString s \<Rightarrow> Inr (JString (takeWhile (\<lambda>c. c \<noteq> CHR '','') s))
      | _ \<Rightarrow>
          if nullish v
          then Inl (ErrorInstance (''Cannot read properties of '' @ type_name v @
                      '' (reading '' @ [CHR 0x27] @ ''split'' @ [CHR 0x27] @ '')''))
          else Inl (ErrorInstance ''item.display_name.split is not a function''))"

text \<open>Decimal rendering of a status code in a template literal.\<close>

fun show_nat :: "nat \<Rightarrow> string" where
  "show_nat n =
     (if n < 10 then [''0123456789'' ! n]
      else show_nat (n div 10) @ [''0123456789'' ! (n mod 10)])"

declare show_nat.simps [simp del]

section \<open>The data model of the geocoder\<close>

record Coordinates =
  latitude :: number
  longitude :: number

text \<open>
  The interface declares \<^verbatim>\<open>name\<close>, \<^verbatim>\<open>displayName\<close> and \<^verbatim>\<open>country\<close> as strings,
  but the values are copied from the untyped upstream item, so at run time they are
  whatever the upstream sent; an omitted optional field is \<^verbatim>\<open>undefined\<close>.
\<close>

record GeocodeResult =
  name :: jsval
  coordinates :: Coordinates
  displayName :: jsval
  country :: jsval
  county :: jsval
  state :: jsval

record GeocodeError =
  error :: string
  details :: "string option"

datatype GeocodeResponse = Results "GeocodeResult list" | Failed GeocodeError

section \<open>The runtime: built-ins, network and clock\<close>

record response =
  ok :: bool
  status :: nat
  statusText :: string
  body :: "thrown + jsval"
  body_ms :: int

record reply =
  settles :: "thrown + response"
  after_ms :: int

text \<open>
  The effects the program performs, in order, each with the clock reading at which it
  was started: waiting on a timer of a requested delay, and sending a request.
\<close>

datatype io = Timer int | Fetch string "(string \<times> string) list"

text \<open>
  The world the program runs in: the reading of \<^verbatim>\<open>Date.now()\<close> (milliseconds), the
  effects so far, and the invocations of the lookup client so far (time, city name,
  country code). Time passes only while the program awaits.
\<close>

record world =
  clock :: int
  history :: "(int \<times> io) list"
  lookups :: "(int \<times> string \<times> string) list"

text \<open>
  What the program cannot decide: the built-in functions of the language, what the
  network answers to a request and how long that takes, and by how much a timer fires
  late. The last two may depend on the time and on every effect before.
\<close>

record runtime =
  trim :: "string \<Rightarrow> string"
  encodeURIComponent :: "string \<Rightarrow> thrown + string"
  parseFloat :: "jsval \<Rightarrow> number"
  network :: "int \<Rightarrow> (int \<times> io) list \<Rightarrow> string \<Rightarrow> (string \<times> string) list \<Rightarrow> reply"
  timer_lag :: "int \<Rightarrow> (int \<times> io) list \<Rightarrow> int"

definition Date_now :: "world \<Rightarrow> int" where
  "Date_now w = clock w"

text \<open>\<^verbatim>\<open>await fetch(url, {headers})\<close>\<close>

definition fetch :: "runtime \<Rightarrow> string \<Rightarrow> (string \<times> string) list \<Rightarrow> world \<Rightarrow> (thrown + response) \<times> world" where
  "fetch rt url headers w =
     (let rp = network rt (clock w) (history w) url headers
      in (settles rp,
          w\<lparr>clock := clock w + after_ms rp,
            history := history w @ [(clock w, Fetch url headers)]\<rparr>))"

text \<open>\<^verbatim>\<open>await response.json()\<close>\<close>

definition response_json :: "response \<Rightarrow> world \<Rightarrow> (thrown + jsval) \<times> world" where
  "response_json r w = (body r, w\<lparr>clock := clock w + body_ms r\<rparr>)"

text \<open>
  \<^verbatim>\<open>await new Promise(resolve => setTimeout(resolve, ms))\<close>. Node replaces a delay
  below 1 or above \<open>2\<^sup>3\<^sup>1 - 1\<close> by 1.
\<close>

definition timeout_ms :: "int \<Rightarrow> int" where
  "timeout_ms ms = (if 1 \<le> ms \<and> ms \<le> 2147483647 then ms else 1)"

definition setTimeout_await :: "runtime \<Rightarrow> int \<Rightarrow> world \<Rightarrow> world" where
  "setTimeout_await rt ms w =
     w\<lparr>clock := clock w + timeout_ms ms + timer_lag rt (clock w) (history w),
       history := history w @ [(clock w, Timer ms)]\<rparr>"

section \<open>The lookup client: geocodeUKCity\<close>

text \<open>The arrow function given to \<^verbatim>\<open>data.map\<close>, fields evaluated in source order.\<close>

definition to_result :: "runtime \<Rightarrow> jsval \<Rightarrow> thrown + GeocodeResult" where
  "to_result rt item =
     and_then (field item ''name'') (\<lambda>short.
     and_then (if truthy short then Inr short
               else and_then (field item ''display_name'') split_comma_first) (\<lambda>nm.
     and_then (field item ''lat'') (\<lambda>lat.
     and_then (field item ''lon'') (\<lambda>lon.
     and_then (field item ''display_name'') (\<lambda>dn.
     and_then (field item ''address'') (\<lambda>a1.
     and_then (optional_field a1 ''country'') (\<lambda>c.
     and_then (field item ''address'') (\<lambda>a2.
     and_then (optional_field a2 ''county'') (\<lambda>cty.
     and_then (field item ''address'') (\<lambda>a3.
     and_then (optional_field a3 ''state'') (\<lambda>st.
       Inr \<lparr>name = nm,
            coordinates = \<lparr>latitude = parseFloat rt lat, longitude = parseFloat rt lon\<rparr>,
            displayName = dn,
            country = (if truthy c then c else JString ''United Kingdom''),
            county = cty,
            state = st\<rparr>)))))))))))"

text \<open>\<^verbatim>\<open>Array.prototype.map\<close> with a callback that may throw: the first throw ends it.\<close>

fun map_items :: "runtime \<Rightarrow> jsval list \<Rightarrow> thrown + GeocodeResult list" where
  "map_items rt [] = Inr []"
| "map_items rt (item # items) =
     and_then (to_result rt item) (\<lambda>r.
     and_then (map_items rt items) (\<lambda>rs. Inr (r # rs)))"

text \<open>
  \<^verbatim>\<open>data.length === 0\<close> for a truthy \<^verbatim>\<open>data\<close>: the length of an array or a
  string, a field called \<^verbatim>\<open>length\<close> of an object, \<^verbatim>\<open>undefined\<close> otherwise.
\<close>

definition length_is_zero :: "jsval \<Rightarrow> bool" where
  "length_is_zero v =
     (case v of
        JArray xs \<Rightarrow> xs = []
      | JString s \<Rightarrow> s = []
      | JObject kvs \<Rightarrow> map_of kvs ''length'' = Some (JNumber (Finite 0))
      | _ \<Rightarrow> False)"

text \<open>
  \<^verbatim>\<open>data.map(...)\<close>: only an array has the method; on any other truthy value the
  call throws a TypeError.
\<close>

definition data_map :: "runtime \<Rightarrow> jsval \<Rightarrow> thrown + GeocodeResult list" where
  "data_map rt v =
     (case v of
        JArray items \<Rightarrow> map_items rt items
      | _ \<Rightarrow> Inl (ErrorInstance ''data.map is not a function''))"

text \<open>Lines 56 to 76: from the parsed body to the answer.\<close>

definition transform :: "runtime \<Rightarrow> string \<Rightarrow> jsval \<Rightarrow> thrown + GeocodeResponse" where
  "transform rt cityName v =
     (if \<not> truthy v \<or> length_is_zero v
      then Inr (Failed
             \<lparr>error = ''No results found for '' @ [CHR 0x22] @ cityName @ [CHR 0x22] @ '' in the UK'',
              details = Some ''Try checking the spelling or using a more specific location name''\<rparr>)
      else and_then (data_map rt v) (\<lambda>results. Inr (Results results)))"

definition search_url :: "string \<Rightarrow> string \<Rightarrow> string" where
  "search_url encodedCity countryCode =
     ''https://nominatim.openstreetmap.org/search?'' @
     ''q='' @ encodedCity @ ''&'' @
     ''countrycodes='' @ countryCode @ ''&'' @
     ''format=json&'' @
     ''addressdetails=1&'' @
     ''limit=5''"

definition request_headers :: "(string \<times> string) list" where
  "request_headers = [(''User-Agent'', ''UK-City-Geocoder/1.0'')]"

text \<open>The body of the \<^verbatim>\<open>try\<close> block.\<close>

definition geocodeUKCity_try :: "runtime \<Rightarrow> string \<Rightarrow> string \<Rightarrow> world \<Rightarrow> (thrown + GeocodeResponse) \<times> world" where
  "geocodeUKCity_try rt cityName countryCode w =
     (case encodeURIComponent rt (trim rt cityName) of
        Inl e \<Rightarrow> (Inl e, w)
      | Inr encodedCity \<Rightarrow>
          (case fetch rt (search_url encodedCity countryCode) request_headers w of
             (Inl e, w1) \<Rightarrow> (Inl e, w1)
           | (Inr resp, w1) \<Rightarrow>
               if \<not> ok resp
               then (Inr (Failed
                       \<lparr>error = ''Geocoding service unavailable'',
                        details = Some (''HTTP '' @ show_nat (status resp) @ '': '' @ statusText resp)\<rparr>),
                     w1)
               else (case response_json resp w1 of
                       (Inl e, w2) \<Rightarrow> (Inl e, w2)
                     | (Inr v, w2) \<Rightarrow> (transform rt cityName v, w2))))"

text \<open>
  The whole function: the invocation is noted, the \<^verbatim>\<open>try\<close> block runs, and the
  \<^verbatim>\<open>catch\<close> block turns whatever was thrown into an error value.
\<close>

definition geocodeUKCity :: "runtime \<Rightarrow> string \<Rightarrow> string \<Rightarrow> world \<Rightarrow> GeocodeResponse \<times> world" where
  "geocodeUKCity rt cityName countryCode w =
     (case geocodeUKCity_try rt cityName countryCode
             (w\<lparr>lookups := lookups w @ [(clock w, cityName, countryCode)]\<rparr>) of
        (Inr r, w') \<Rightarrow> (r, w')
      | (Inl err, w') \<Rightarrow>
          (Failed \<lparr>error = ''Failed to geocode location'',
                   details = Some (case err of
                                     ErrorInstance message \<Rightarrow> message
                                   | NonError \<Rightarrow> ''Unknown error occurred'')\<rparr>,
           w'))"

section \<open>The rate limiter: NominatimGeocoder\<close>

record NominatimGeocoder =
  lastRequestTime :: int

definition minInterval :: int where
  "minInterval = 1000"

text \<open>\<^verbatim>\<open>new NominatimGeocoder()\<close>, the value of the singleton when the module is loaded.\<close>

definition nominatimGeocoder :: NominatimGeocoder where
  "nominatimGeocoder = \<lparr>lastRequestTime = 0\<rparr>"

definition geocode :: "runtime \<Rightarrow> string \<Rightarrow> string \<Rightarrow> NominatimGeocoder \<times> world \<Rightarrow> GeocodeResponse \<times> NominatimGeocoder \<times> world" where
  "geocode rt cityName countryCode s =
     (case s of (this, w) \<Rightarrow>
        let now = Date_now w;
            timeSinceLastRequest = now - lastRequestTime this;
            w1 = (if timeSinceLastRequest < minInterval
                  then (let waitTime = minInterval - timeSinceLastRequest
                        in setTimeout_await rt waitTime w)
                  else w);
            this1 = this\<lparr>lastRequestTime := Date_now w1\<rparr>
        in (case geocodeUKCity rt cityName countryCode w1 of
              (r, w2) \<Rightarrow> (r, this1, w2)))"

section \<open>The batch orchestrator: batchGeocodeUKCities\<close>

text \<open>
  \<^verbatim>\<open>const results: Record<string, GeocodeResponse> = {}\<close> is a plain object: its own
  properties, and its prototype. The loop only ever assigns arrays and error objects.
  An assignment \<^verbatim>\<open>results[key] = v\<close> creates or overwrites the own property
  \<^verbatim>\<open>key\<close>, except for the key \<^verbatim>\<open>__proto__\<close>: that one is an accessor inherited from
  \<^verbatim>\<open>Object.prototype\<close>, whose setter makes the object \<^verbatim>\<open>v\<close> the prototype of
  \<^verbatim>\<open>results\<close> and creates no own property. \<open>proto = None\<close> stands for the initial
  prototype, \<^verbatim>\<open>Object.prototype\<close>.
\<close>

record BatchResult =
  own :: "string \<rightharpoonup> GeocodeResponse"
  proto :: "GeocodeResponse option"

definition empty_object :: BatchResult where
  "empty_object = \<lparr>own = Map.empty, proto = None\<rparr>"

definition assign :: "BatchResult \<Rightarrow> string \<Rightarrow> GeocodeResponse \<Rightarrow> BatchResult" where
  "assign results key v =
     (if key = ''__proto__'' then results\<lparr>proto := Some v\<rparr>
      else results\<lparr>own := (own results)(key \<mapsto> v)\<rparr>)"

text \<open>The keys of the result (\<^verbatim>\<open>Object.keys\<close>, what a serialisation shows).\<close>

definition keys :: "BatchResult \<Rightarrow> string set" where
  "keys results = dom (own results)"

text \<open>
  \<^verbatim>\<open>results[key]\<close> for a key that was assigned: the own property, and for
  \<^verbatim>\<open>__proto__\<close> what the inherited getter returns, the prototype. (For any other key
  JavaScript goes on to search the prototype chain; that is not modelled.)
\<close>

definition read_entry :: "BatchResult \<Rightarrow> string \<Rightarrow> GeocodeResponse option" where
  "read_entry results key = (if key = ''__proto__'' then proto results else own results key)"

text \<open>The \<^verbatim>\<open>catch\<close> block of the loop.\<close>

definition batch_catch :: "string \<Rightarrow> thrown \<Rightarrow> GeocodeResponse" where
  "batch_catch cityName err =
     Failed \<lparr>error = ''Failed to geocode '' @ cityName,
             details = Some (case err of
                               ErrorInstance message \<Rightarrow> message
                             | NonError \<Rightarrow> ''Unknown error'')\<rparr>"

text \<open>
  The \<^verbatim>\<open>for\<close> loop with its \<^verbatim>\<open>try\<close> and \<^verbatim>\<open>catch\<close>, for an awaited call
  \<open>lookup\<close> that returns or throws, over any state \<open>'s\<close> the call may change.
\<close>

fun batch_loop :: "(string \<Rightarrow> 's \<Rightarrow> (thrown + GeocodeResponse) \<times> 's) \<Rightarrow> string list \<Rightarrow> BatchResult \<Rightarrow> 's \<Rightarrow> BatchResult \<times> 's" where
  "batch_loop lookup [] results s = (results, s)"
| "batch_loop lookup (cityName # rest) results s =
     (case lookup cityName s of
        (Inr r, s') \<Rightarrow> batch_loop lookup rest (assign results cityName r) s'
      | (Inl err, s') \<Rightarrow> batch_loop lookup rest (assign results cityName (batch_catch cityName err)) s')"

text \<open>
  The two calls of the loop body, with the default country code \<^verbatim>\<open>'gb'\<close>. The state
  is the singleton limiter and the world; the direct call leaves the limiter alone.
\<close>

definition limited_call :: "runtime \<Rightarrow> string \<Rightarrow> NominatimGeocoder \<times> world \<Rightarrow> (thrown + GeocodeResponse) \<times> NominatimGeocoder \<times> world" where
  "limited_call rt cityName s = (case geocode rt cityName ''gb'' s of (r, s') \<Rightarrow> (Inr r, s'))"

definition direct_call :: "runtime \<Rightarrow> string \<Rightarrow> NominatimGeocoder \<times> world \<Rightarrow> (thrown + GeocodeResponse) \<times> NominatimGeocoder \<times> world" where
  "direct_call rt cityName s =
     (case s of (g, w) \<Rightarrow>
        (case geocodeUKCity rt cityName ''gb'' w of (r, w') \<Rightarrow> (Inr r, g, w')))"

definition batchGeocodeUKCities :: "runtime \<Rightarrow> string list \<Rightarrow> bool \<Rightarrow> NominatimGeocoder \<times> world \<Rightarrow> BatchResult \<times> NominatimGeocoder \<times> world" where
  "batchGeocodeUKCities rt cityNames useRateLimiting s =
     batch_loop (if useRateLimiting then limited_call rt else direct_call rt)
       cityNames empty_object s"

section \<open>Observations on a run\<close>

text \<open>The timer waits among the effects: when each began and the delay it asked for.\<close>

fun waits :: "(int \<times> io) list \<Rightarrow> (int \<times> int) list" where
  "waits [] = []"
| "waits ((t, Timer ms) # h) = (t, ms) # waits h"
| "waits ((t, Fetch url headers) # h) = waits h"

text \<open>
  Timestamps that are at least 1000 ms apart, the first at least 1000 ms after \<open>t0\<close>.
\<close>

fun spaced :: "int \<Rightarrow> int list \<Rightarrow> bool" where
  "spaced t0 [] = True"
| "spaced t0 (t # ts) = (t0 + 1000 \<le> t \<and> spaced t ts)"

section \<open>What the specification says of a candidate\<close>

text \<open>
  The specification's description of the record built from one upstream candidate,
  written from its words and compared with \<open>to_result\<close> below: the name is the
  upstream short name, else the first comma-delimited segment of the display name; the
  coordinates are the parsed latitude and longitude fields; the display name is passed
  through; the country is the address country, else the fixed literal; county and state
  are the optional address fields. A short name counts as given when it is truthy.
\<close>

definition text_of :: "jsval \<Rightarrow> string" where
  "text_of v = (case v of JString s \<Rightarrow> s | _ \<Rightarrow> [])"

definition is_string :: "jsval \<Rightarrow> bool" where
  "is_string v = (case v of JString s \<Rightarrow> True | _ \<Rightarrow> False)"

definition first_segment :: "string \<Rightarrow> string" where
  "first_segment s = takeWhile (\<lambda>c. c \<noteq> CHR '','') s"

definition spec_LocationResult :: "runtime \<Rightarrow> jsval \<Rightarrow> GeocodeResult" where
  "spec_LocationResult rt c =
     \<lparr>name = (if truthy (json_field c ''name'') then json_field c ''name''
              else JString (first_segment (text_of (json_field c ''display_name'')))),
      coordinates = \<lparr>latitude = parseFloat rt (json_field c ''lat''),
                     longitude = parseFloat rt (json_field c ''lon'')\<rparr>,
      displayName = json_field c ''display_name'',
      country = (if truthy (json_field (json_field c ''address'') ''country'')
                 then json_field (json_field c ''address'') ''country''
                 else JString ''United Kingdom''),
      county = json_field (json_field c ''address'') ''county'',
      state = json_field (json_field c ''address'') ''state''\<rparr>"

text \<open>
  A candidate from which a name can be computed: it has a truthy short name, or its
  display name is a string.
\<close>

definition nameable :: "jsval \<Rightarrow> bool" where
  "nameable c = (truthy (json_field c ''name'') \<or> is_string (json_field c ''display_name''))"

section \<open>Test doubles\<close>

text \<open>
  A stubbed runtime for the concrete runs below: the network gives the same reply to
  every request, timers fire exactly on time, and \<^verbatim>\<open>parseFloat\<close> knows two decimal
  strings.
\<close>

definition stub_parseFloat :: "jsval \<Rightarrow> number" where
  "stub_parseFloat v =
     (case v of
        JNumber n \<Rightarrow> n
      | JString s \<Rightarrow>
          if s = ''51.5'' then Finite (515 / 10)
          else if s = ''-0.12'' then Finite (- 12 / 100)
          else NaN
      | _ \<Rightarrow> NaN)"

definition stub_runtime :: "reply \<Rightarrow> runtime" where
  "stub_runtime rp =
     \<lparr>trim = (\<lambda>s. s),
      encodeURIComponent = (\<lambda>s. Inr s),
      parseFloat = stub_parseFloat,
      network = (\<lambda>t h url headers. rp),
      timer_lag = (\<lambda>t h. 0)\<rparr>"

definition http_reply :: "nat \<Rightarrow> string \<Rightarrow> reply" where
  "http_reply code reason =
     \<lparr>settles = Inr \<lparr>ok = (200 \<le> code \<and> code \<le> 299), status = code, statusText = reason,
                     body = Inr JNull, body_ms = 0\<rparr>,
      after_ms = 40\<rparr>"

definition json_reply :: "jsval \<Rightarrow> reply" where
  "json_reply v =
     \<lparr>settles = Inr \<lparr>ok = True, status = 200, statusText = ''OK'', body = Inr v, body_ms = 5\<rparr>,
      after_ms = 40\<rparr>"

definition world_at :: "int \<Rightarrow> world" where
  "world_at t = \<lparr>clock = t, history = [], lookups = []\<rparr>"

definition london :: jsval where
  "london =
     JObject [(''name'', JString ''London''),
              (''display_name'', JString ''London, Greater London, England, United Kingdom''),
              (''lat'', JString ''51.5''),
              (''lon'', JString ''-0.12''),
              (''address'', JObject [(''state'', JString ''England''),
                                     (''country'', JString ''United Kingdom'')])]"


definition nameless :: jsval where
  "nameless = JObject [(''lat'', JString ''51.5''), (''lon'', JString ''-0.12'')]"


section \<open>The lookup client: from candidates to results\<close>

lemma json_field_nullish: "nullish v \<Longrightarrow> json_field v key = JUndefined"
  by (auto simp: nullish_def json_field_def)

lemma nameable_not_nullish: "nameable c \<Longrightarrow> \<not> nullish c"
  by (auto simp: nameable_def nullish_def json_field_def truthy_def is_string_def)

lemma optional_field_json: "\<not> nullish v \<Longrightarrow> optional_field (json_field v k) key = Inr (json_field (json_field v k) key)"
  by (simp add: optional_field_def field_def json_field_nullish)

lemma split_comma_first_string:
  "is_string v \<Longrightarrow> split_comma_first v = Inr (JString (first_segment (text_of v)))"
  by (cases v) (simp_all add: is_string_def split_comma_first_def first_segment_def text_of_def)

lemma split_comma_first_throws:
  "\<not> is_string v \<Longrightarrow> \<exists>m. split_comma_first v = Inl (ErrorInstance m)"
  by (cases v) (simp_all add: is_string_def split_comma_first_def)

lemma to_result_nameable:
  assumes "nameable c"
  shows "to_result rt c = Inr (spec_LocationResult rt c)"
proof -
  have nn: "\<not> nullish c" using assms by (rule nameable_not_nullish)
  have f: "\<And>key. field c key = Inr (json_field c key)"
    using nn by (simp add: field_def)
  show ?thesis
  proof (cases "truthy (json_field c ''name'')")
    case True
    then show ?thesis
      unfolding to_result_def f
      by (simp add: and_then_def optional_field_json [OF nn] spec_LocationResult_def)
  next
    case False
    with assms have "is_string (json_field c ''display_name'')"
      by (simp add: nameable_def)
    then have "split_comma_first (json_field c ''display_name'') =
                 Inr (JString (first_segment (text_of (json_field c ''display_name''))))"
      by (rule split_comma_first_string)
    with False show ?thesis
      unfolding to_result_def f
      by (simp add: and_then_def optional_field_json [OF nn] spec_LocationResult_def)
  qed
qed

lemma to_result_throws:
  assumes "\<not> nameable c"
  shows "\<exists>m. to_result rt c = Inl (ErrorInstance m)"
proof (cases "nullish c")
  case True
  then show ?thesis by (simp add: to_result_def field_def and_then_def)
next
  case False
  then have f: "\<And>key. field c key = Inr (json_field c key)" by (simp add: field_def)
  from assms have "\<not> truthy (json_field c ''name'')" and "\<not> is_string (json_field c ''display_name'')"
    by (simp_all add: nameable_def)
  moreover from this(2) obtain m where "split_comma_first (json_field c ''display_name'') = Inl (ErrorInstance m)"
    using split_comma_first_throws by blast
  ultimately show ?thesis
    unfolding to_result_def f by (simp add: and_then_def)
qed


lemma map_items_throws:
  "c \<in> set items \<Longrightarrow> \<not> nameable c \<Longrightarrow> \<exists>m. map_items rt items = Inl (ErrorInstance m)"
proof (induction items)
  case Nil
  then show ?case by simp
next
  case (Cons a items)
  show ?case
  proof (cases "nameable a")
    case True
    with Cons obtain m where "map_items rt items = Inl (ErrorInstance m)" by auto
    with True show ?thesis by (simp add: to_result_nameable and_then_def)
  next
    case False
    then obtain m where "to_result rt a = Inl (ErrorInstance m)" using to_result_throws by blast
    then show ?thesis by (simp add: and_then_def)
  qed
qed

lemma transform_empty:
  "transform rt cityName (JArray []) =
     Inr (Failed \<lparr>error = ''No results found for '' @ [CHR 0x22] @ cityName @ [CHR 0x22] @ '' in the UK'',
                  details = Some ''Try checking the spelling or using a more specific location name''\<rparr>)"
  by (simp add: transform_def truthy_def length_is_zero_def)

lemma transform_array:
  "items \<noteq> [] \<Longrightarrow>
   transform rt cityName (JArray items) = and_then (map_items rt items) (\<lambda>results. Inr (Results results))"
  by (simp add: transform_def truthy_def length_is_zero_def data_map_def)

section \<open>The lookup client: classification of the upstream answer\<close>

lemma fetch_result:
  "fetch rt url hs w =
     (settles (network rt (clock w) (history w) url hs),
      w\<lparr>clock := clock w + after_ms (network rt (clock w) (history w) url hs),
        history := history w @ [(clock w, Fetch url hs)]\<rparr>)"
  by (simp add: fetch_def Let_def)

lemma geocodeUKCity_fst:
  "fst (geocodeUKCity rt cityName countryCode w) =
     (case fst (geocodeUKCity_try rt cityName countryCode
                  (w\<lparr>lookups := lookups w @ [(clock w, cityName, countryCode)]\<rparr>)) of
        Inr r \<Rightarrow> r
      | Inl err \<Rightarrow>
          Failed \<lparr>error = ''Failed to geocode location'',
                  details = Some (case err of ErrorInstance message \<Rightarrow> message
                                  | NonError \<Rightarrow> ''Unknown error occurred'')\<rparr>)"
  by (simp add: geocodeUKCity_def split: prod.splits sum.splits)

lemma lookup_not_ok:
  assumes "encodeURIComponent rt (trim rt cityName) = Inr q"
      and "settles (network rt (clock w) (history w) (search_url q countryCode) request_headers) = Inr resp"
      and "\<not> ok resp"
  shows "fst (geocodeUKCity rt cityName countryCode w) =
           Failed \<lparr>error = ''Geocoding service unavailable'',
                   details = Some (''HTTP '' @ show_nat (status resp) @ '': '' @ statusText resp)\<rparr>"
  using assms by (simp add: geocodeUKCity_fst geocodeUKCity_try_def fetch_result)

lemma lookup_parsed:
  assumes "encodeURIComponent rt (trim rt cityName) = Inr q"
      and "settles (network rt (clock w) (history w) (search_url q countryCode) request_headers) = Inr resp"
      and "ok resp"
      and "body resp = Inr v"
  shows "fst (geocodeUKCity rt cityName countryCode w) =
           (case transform rt cityName v of
              Inr r \<Rightarrow> r
            | Inl err \<Rightarrow>
                Failed \<lparr>error = ''Failed to geocode location'',
                        details = Some (case err of ErrorInstance message \<Rightarrow> message
                                        | NonError \<Rightarrow> ''Unknown error occurred'')\<rparr>)"
  using assms by (simp add: geocodeUKCity_fst geocodeUKCity_try_def fetch_result response_json_def)

text \<open>Evaluations of the test doubles, for the concrete runs.\<close>

lemma show_nat_503: "show_nat 503 = ''503''"
  by code_simp

lemma nameable_london: "nameable london"
  by (simp add: nameable_def london_def json_field_def truthy_def)





lemma stub_request:
  "encodeURIComponent (stub_runtime rp) (trim (stub_runtime rp) cityName) = Inr cityName"
  "network (stub_runtime rp) t h url headers = rp"
  by (simp_all add: stub_runtime_def)

text \<open>
  C4. When the upstream answers with a non-success HTTP status, the lookup client
  returns (it does not throw) the error value for an unavailable service, whose detail
  holds the status code and the status text. The literal strings of the source are
  \<^verbatim>\<open>Geocoding service unavailable\<close> and \<^verbatim>\<open>HTTP <status code>: <status text>\<close>; the
  specification abbreviates them. The hypotheses say that the request could be built
  and that the network answered it with the response \<open>resp\<close>.
\<close>

theorem http_error_is_service_unavailable:
  assumes "encodeURIComponent rt (trim rt cityName) = Inr q"
      and "settles (network rt (clock w) (history w) (search_url q countryCode) request_headers) = Inr resp"
      and "\<not> ok resp"
  shows "fst (geocodeUKCity rt cityName countryCode w) =
           Failed \<lparr>error = ''Geocoding service unavailable'',
                   details = Some (''HTTP '' @ show_nat (status resp) @ '': '' @ statusText resp)\<rparr>"
  using assms by (rule lookup_not_ok)

theorem http_error_is_service_unavailable_witness:
  "\<not> ok \<lparr>ok = False, status = 503, statusText = ''Service Unavailable'', body = Inr JNull, body_ms = 0\<rparr> \<and>
   fst (geocodeUKCity (stub_runtime (http_reply 503 ''Service Unavailable'')) ''Leeds'' ''gb'' (world_at 5000)) =
     Failed \<lparr>error = ''Geocoding service unavailable'',
             details = Some ''HTTP 503: Service Unavailable''\<rparr>"
proof -
  let ?rt = "stub_runtime (http_reply 503 ''Service Unavailable'')"
  let ?resp = "\<lparr>ok = False, status = 503, statusText = ''Service Unavailable'', body = Inr JNull, body_ms = 0\<rparr>"
  have 1: "encodeURIComponent ?rt (trim ?rt ''Leeds'') = Inr ''Leeds''"
    by (rule stub_request)
  have 2: "settles (network ?rt (clock (world_at 5000)) (history (world_at 5000))
                      (search_url ''Leeds'' ''gb'') request_headers) = Inr ?resp"
    by (simp add: stub_request http_reply_def)
  have 3: "\<not> ok ?resp"
    by simp
  from http_error_is_service_unavailable [OF 1 2 3] show ?thesis
    by (simp add: show_nat_503)
qed

text \<open>
  C5. When the upstream answers successfully with an empty list, the lookup client
  returns an error value, not an empty list of results and not an exception. Its
  message holds the city name exactly as it was passed (untrimmed), between double
  quotes; its detail advises to check the spelling or to be more specific.
\<close>

theorem empty_list_is_no_results:
  assumes "encodeURIComponent rt (trim rt cityName) = Inr q"
      and "settles (network rt (clock w) (history w) (search_url q countryCode) request_headers) = Inr resp"
      and "ok resp"
      and "body resp = Inr (JArray [])"
  shows "fst (geocodeUKCity rt cityName countryCode w) =
           Failed \<lparr>error = ''No results found for '' @ [CHR 0x22] @ cityName @ [CHR 0x22] @ '' in the UK'',
                   details = Some ''Try checking the spelling or using a more specific location name''\<rparr>"
  using lookup_parsed [OF assms] by (simp add: transform_empty)

theorem empty_list_is_no_results_witness:
  "fst (geocodeUKCity (stub_runtime (json_reply (JArray []))) '' Xyzzy '' ''gb'' (world_at 5000)) =
     Failed \<lparr>error = ''No results found for '' @ [CHR 0x22] @ '' Xyzzy '' @ [CHR 0x22] @ '' in the UK'',
             details = Some ''Try checking the spelling or using a more specific location name''\<rparr>"
proof -
  let ?rt = "stub_runtime (json_reply (JArray []))"
  let ?resp = "\<lparr>ok = True, status = 200, statusText = ''OK'', body = Inr (JArray []), body_ms = 5\<rparr>"
  have 1: "encodeURIComponent ?rt (trim ?rt '' Xyzzy '') = Inr '' Xyzzy ''"
    by (rule stub_request)
  have 2: "settles (network ?rt (clock (world_at 5000)) (history (world_at 5000))
                      (search_url '' Xyzzy '' ''gb'') request_headers) = Inr ?resp"
    by (simp add: stub_request json_reply_def)
  have 3: "ok ?resp" and 4: "body ?resp = Inr (JArray [])"
    by simp_all
  from empty_list_is_no_results [OF 1 2 3 4] show ?thesis .
qed






text \<open>
  C10. One candidate without a truthy short name and without a display-name string
  makes the whole request fail: computing its name throws a TypeError inside
  \<^verbatim>\<open>data.map\<close>, the \<^verbatim>\<open>catch\<close> block returns the error value
  \<^verbatim>\<open>Failed to geocode location\<close> with the message of the exception as detail, and the
  results already built for the other candidates are dropped.
\<close>

theorem one_nameless_candidate_fails_all:
  assumes "encodeURIComponent rt (trim rt cityName) = Inr q"
      and "settles (network rt (clock w) (history w) (search_url q countryCode) request_headers) = Inr resp"
      and "ok resp"
      and "body resp = Inr (JArray items)"
      and "c \<in> set items"
      and "\<not> truthy (json_field c ''name'')"
      and "\<not> is_string (json_field c ''display_name'')"
  shows "\<exists>m. fst (geocodeUKCity rt cityName countryCode w) =
               Failed \<lparr>error = ''Failed to geocode location'', details = Some m\<rparr>"
proof -
  from assms(5) have ne: "items \<noteq> []" by auto
  from assms(6,7) have "\<not> nameable c" by (simp add: nameable_def)
  with assms(5) obtain m where "map_items rt items = Inl (ErrorInstance m)"
    using map_items_throws by blast
  with lookup_parsed [OF assms(1-4)] ne show ?thesis
    by (simp add: transform_array and_then_def)
qed

lemma nameless_fields:
  "\<not> truthy (json_field nameless ''name'')" "\<not> is_string (json_field nameless ''display_name'')"
  by (simp_all add: nameless_def json_field_def truthy_def is_string_def)

theorem one_nameless_candidate_fails_all_witness:
  "nameable london \<and>
   \<not> truthy (json_field nameless ''name'') \<and>
   \<not> is_string (json_field nameless ''display_name'') \<and>
   (\<exists>m. fst (geocodeUKCity (stub_runtime (json_reply (JArray [london, nameless])))
                ''London'' ''gb'' (world_at 5000)) =
          Failed \<lparr>error = ''Failed to geocode location'', details = Some m\<rparr>)"
proof -
  let ?items = "[london, nameless]"
  let ?rt = "stub_runtime (json_reply (JArray ?items))"
  let ?resp = "\<lparr>ok = True, status = 200, statusText = ''OK'', body = Inr (JArray ?items), body_ms = 5\<rparr>"
  have 1: "encodeURIComponent ?rt (trim ?rt ''London'') = Inr ''London''"
    by (rule stub_request)
  have 2: "settles (network ?rt (clock (world_at 5000)) (history (world_at 5000))
                      (search_url ''London'' ''gb'') request_headers) = Inr ?resp"
    by (simp add: stub_request json_reply_def)
  have 3: "ok ?resp" and 4: "body ?resp = Inr (JArray ?items)" and 5: "nameless \<in> set ?items"
    by simp_all
  from one_nameless_candidate_fails_all [OF 1 2 3 4 5 nameless_fields]
  show ?thesis
    by (simp add: nameable_london nameless_fields)
qed

section \<open>The rate limiter\<close>

lemma waits_append: "waits (h @ h') = waits h @ waits h'"
  by (induction h rule: waits.induct) simp_all

lemma try_effects:
  "lookups (snd (geocodeUKCity_try rt cityName countryCode w)) = lookups w \<and>
   waits (history (snd (geocodeUKCity_try rt cityName countryCode w))) = waits (history w)"
  by (simp add: geocodeUKCity_try_def fetch_result response_json_def waits_append
           split: sum.splits prod.splits)

lemma geocodeUKCity_snd:
  "snd (geocodeUKCity rt cityName countryCode w) =
     snd (geocodeUKCity_try rt cityName countryCode
            (w\<lparr>lookups := lookups w @ [(clock w, cityName, countryCode)]\<rparr>))"
  by (simp add: geocodeUKCity_def split: prod.splits sum.splits)

lemma geocodeUKCity_effects:
  "lookups (snd (geocodeUKCity rt cityName countryCode w)) = lookups w @ [(clock w, cityName, countryCode)]"
  "waits (history (snd (geocodeUKCity rt cityName countryCode w))) = waits (history w)"
  by (simp_all add: geocodeUKCity_snd try_effects)

lemma geocode_unfold:
  "geocode rt cityName countryCode (g, w) =
     (fst (geocodeUKCity rt cityName countryCode
            (if clock w - lastRequestTime g < 1000
             then setTimeout_await rt (1000 - (clock w - lastRequestTime g)) w else w)),
      g\<lparr>lastRequestTime := clock (if clock w - lastRequestTime g < 1000
             then setTimeout_await rt (1000 - (clock w - lastRequestTime g)) w else w)\<rparr>,
      snd (geocodeUKCity rt cityName countryCode
            (if clock w - lastRequestTime g < 1000
             then setTimeout_await rt (1000 - (clock w - lastRequestTime g)) w else w)))"
  by (simp add: geocode_def Let_def Date_now_def minInterval_def split: prod.splits)

lemma setTimeout_await_effects:
  "clock (setTimeout_await rt ms w) = clock w + timeout_ms ms + timer_lag rt (clock w) (history w)"
  "lookups (setTimeout_await rt ms w) = lookups w"
  "waits (history (setTimeout_await rt ms w)) = waits (history w) @ [(clock w, ms)]"
  by (simp_all add: setTimeout_await_def waits_append)

lemma geocode_run:
  assumes "geocode rt cityName countryCode (g, w) = (r, g', w')"
  shows "lookups w' = lookups w @ [(lastRequestTime g', cityName, countryCode)]"
    and "waits (history w') =
           waits (history w) @
           (if clock w - lastRequestTime g < 1000
            then [(clock w, 1000 - (clock w - lastRequestTime g))] else [])"
    and "lastRequestTime g' =
           (if clock w - lastRequestTime g < 1000
            then clock w + timeout_ms (1000 - (clock w - lastRequestTime g)) +
                 timer_lag rt (clock w) (history w)
            else clock w)"
    and "\<exists>w1. clock w1 = lastRequestTime g' \<and> geocodeUKCity rt cityName countryCode w1 = (r, w')"
proof -
  let ?w1 = "if clock w - lastRequestTime g < 1000
             then setTimeout_await rt (1000 - (clock w - lastRequestTime g)) w else w"
  from assms have r: "r = fst (geocodeUKCity rt cityName countryCode ?w1)"
    and g': "g' = g\<lparr>lastRequestTime := clock ?w1\<rparr>"
    and w': "w' = snd (geocodeUKCity rt cityName countryCode ?w1)"
    by (simp_all add: geocode_unfold)
  show "lookups w' = lookups w @ [(lastRequestTime g', cityName, countryCode)]"
    by (simp add: w' g' geocodeUKCity_effects setTimeout_await_effects)
  show "waits (history w') =
           waits (history w) @
           (if clock w - lastRequestTime g < 1000
            then [(clock w, 1000 - (clock w - lastRequestTime g))] else [])"
    by (simp add: w' geocodeUKCity_effects setTimeout_await_effects)
  show "lastRequestTime g' =
           (if clock w - lastRequestTime g < 1000
            then clock w + timeout_ms (1000 - (clock w - lastRequestTime g)) +
                 timer_lag rt (clock w) (history w)
            else clock w)"
    by (simp add: g' setTimeout_await_effects)
  have "clock ?w1 = lastRequestTime g' \<and> geocodeUKCity rt cityName countryCode ?w1 = (r, w')"
    by (simp add: r g' w')
  then show "\<exists>w1. clock w1 = lastRequestTime g' \<and> geocodeUKCity rt cityName countryCode w1 = (r, w')"
    by blast
qed

lemma geocode_projections:
  "geocode rt cityName countryCode s =
     (fst (geocode rt cityName countryCode s),
      fst (snd (geocode rt cityName countryCode s)),
      snd (snd (geocode rt cityName countryCode s)))"
  by simp

lemma stub_timer_lag: "timer_lag (stub_runtime rp) t h = 0"
  by (simp add: stub_runtime_def)

lemma stub_lookup_clock:
  "clock (snd (geocodeUKCity (stub_runtime (json_reply v)) cityName countryCode w)) = clock w + 45"
  by (simp add: geocodeUKCity_snd geocodeUKCity_try_def fetch_result response_json_def
        stub_request json_reply_def split: sum.splits)

lemma stub_geocode_clock:
  "clock (snd (snd (geocode (stub_runtime (json_reply v)) cityName countryCode (g, w)))) =
     lastRequestTime (fst (snd (geocode (stub_runtime (json_reply v)) cityName countryCode (g, w)))) + 45"
  by (simp add: geocode_unfold stub_lookup_clock)

lemma geocode_delegates:
  assumes "geocode rt cityName countryCode (g, w) = (r, g', w')"
  shows "geocodeUKCity rt cityName countryCode
           (if clock w - lastRequestTime g < 1000
            then setTimeout_await rt (1000 - (clock w - lastRequestTime g)) w else w) = (r, w')"
    and "lastRequestTime g' =
           clock (if clock w - lastRequestTime g < 1000
                  then setTimeout_await rt (1000 - (clock w - lastRequestTime g)) w else w)"
  using assms by (auto simp: geocode_unfold)

text \<open>
  C1. Two successive calls through one limiter: the first is made in any state, and
  the second finds the limiter as the first left it, in the world \<open>wb\<close> that the
  first call and whatever happened since have produced. Each call delegates to the
  lookup client exactly once and only delays: its answer and the world it leaves are
  those of one run of \<open>geocodeUKCity\<close> with the call's own arguments, started in
  the world the call was given or in that world after one timer wait, at the clock
  reading that the call records; the log of invocations grows by exactly that one
  entry. The second run starts at least 1000 ms after the first. The two hypotheses are
  about the environment: the clock was not set back behind the first dispatch, and the
  timer does not fire early. (The calls are sequential; the model has no concurrent
  callers. Lemma \<open>batch_rate_limited\<close> extends the spacing to all calls of a batch.)
\<close>

theorem successive_dispatches_are_spaced:
  assumes "geocode rt city1 code1 (g0, w0) = (r1, g1, w1)"
      and "geocode rt city2 code2 (g1, wb) = (r2, g2, w2)"
      and "lastRequestTime g1 \<le> clock wb"
      and "0 \<le> timer_lag rt (clock wb) (history wb)"
  shows "lookups w1 = lookups w0 @ [(lastRequestTime g1, city1, code1)] \<and>
         lookups w2 = lookups wb @ [(lastRequestTime g2, city2, code2)] \<and>
         lastRequestTime g1 + 1000 \<le> lastRequestTime g2 \<and>
         (\<exists>wa. (wa = w0 \<or> wa = setTimeout_await rt (1000 - (clock w0 - lastRequestTime g0)) w0) \<and>
               clock wa = lastRequestTime g1 \<and>
               geocodeUKCity rt city1 code1 wa = (r1, w1)) \<and>
         (\<exists>wc. (wc = wb \<or> wc = setTimeout_await rt (1000 - (clock wb - lastRequestTime g1)) wb) \<and>
               clock wc = lastRequestTime g2 \<and>
               lastRequestTime g1 + 1000 \<le> clock wc \<and>
               geocodeUKCity rt city2 code2 wc = (r2, w2))"
proof -
  let ?wa = "if clock w0 - lastRequestTime g0 < 1000
             then setTimeout_await rt (1000 - (clock w0 - lastRequestTime g0)) w0 else w0"
  let ?wc = "if clock wb - lastRequestTime g1 < 1000
             then setTimeout_await rt (1000 - (clock wb - lastRequestTime g1)) wb else wb"
  have l1: "lookups w1 = lookups w0 @ [(lastRequestTime g1, city1, code1)]"
    using assms(1) by (rule geocode_run)
  have l2: "lookups w2 = lookups wb @ [(lastRequestTime g2, city2, code2)]"
    using assms(2) by (rule geocode_run)
  have "lastRequestTime g2 =
          (if clock wb - lastRequestTime g1 < 1000
           then clock wb + timeout_ms (1000 - (clock wb - lastRequestTime g1)) +
                timer_lag rt (clock wb) (history wb)
           else clock wb)"
    using assms(2) by (rule geocode_run)
  with assms(3,4) have gap: "lastRequestTime g1 + 1000 \<le> lastRequestTime g2"
    by (simp add: timeout_ms_def split: if_splits)
  have a: "(?wa = w0 \<or> ?wa = setTimeout_await rt (1000 - (clock w0 - lastRequestTime g0)) w0) \<and>
           clock ?wa = lastRequestTime g1 \<and> geocodeUKCity rt city1 code1 ?wa = (r1, w1)"
    using geocode_delegates [OF assms(1)] by simp
  have c: "(?wc = wb \<or> ?wc = setTimeout_await rt (1000 - (clock wb - lastRequestTime g1)) wb) \<and>
           clock ?wc = lastRequestTime g2 \<and> lastRequestTime g1 + 1000 \<le> clock ?wc \<and>
           geocodeUKCity rt city2 code2 ?wc = (r2, w2)"
    using geocode_delegates [OF assms(2)] gap by simp
  from a have ea: "\<exists>wa. (wa = w0 \<or> wa = setTimeout_await rt (1000 - (clock w0 - lastRequestTime g0)) w0) \<and>
               clock wa = lastRequestTime g1 \<and>
               geocodeUKCity rt city1 code1 wa = (r1, w1)"
    by (rule exI)
  from c have ec: "\<exists>wc. (wc = wb \<or> wc = setTimeout_await rt (1000 - (clock wb - lastRequestTime g1)) wb) \<and>
               clock wc = lastRequestTime g2 \<and>
               lastRequestTime g1 + 1000 \<le> clock wc \<and>
               geocodeUKCity rt city2 code2 wc = (r2, w2)"
    by (rule exI)
  from l1 l2 gap ea ec show ?thesis
    by (intro conjI)
qed

theorem successive_dispatches_are_spaced_witness:
  "lastRequestTime
     (fst (snd (geocode (stub_runtime (json_reply (JArray [london]))) ''London'' ''gb''
                  (nominatimGeocoder, world_at 5000)))) = 5000 \<and>
   lastRequestTime
     (fst (snd (geocode (stub_runtime (json_reply (JArray [london]))) ''Leeds'' ''gb''
        (fst (snd (geocode (stub_runtime (json_reply (JArray [london]))) ''London'' ''gb''
                     (nominatimGeocoder, world_at 5000))),
         (snd (snd (geocode (stub_runtime (json_reply (JArray [london]))) ''London'' ''gb''
                     (nominatimGeocoder, world_at 5000))))\<lparr>clock := 5200\<rparr>)))) = 6000 \<and>
   lookups
     (snd (snd (geocode (stub_runtime (json_reply (JArray [london]))) ''Leeds'' ''gb''
        (fst (snd (geocode (stub_runtime (json_reply (JArray [london]))) ''London'' ''gb''
                     (nominatimGeocoder, world_at 5000))),
         (snd (snd (geocode (stub_runtime (json_reply (JArray [london]))) ''London'' ''gb''
                     (nominatimGeocoder, world_at 5000))))\<lparr>clock := 5200\<rparr>)))) =
     [(5000, ''London'', ''gb''), (6000, ''Leeds'', ''gb'')]"
proof -
  let ?rt = "stub_runtime (json_reply (JArray [london]))"
  let ?X = "geocode ?rt ''London'' ''gb'' (nominatimGeocoder, world_at 5000)"
  let ?Y = "geocode ?rt ''Leeds'' ''gb'' (fst (snd ?X), (snd (snd ?X))\<lparr>clock := 5200\<rparr>)"
  have t1: "lastRequestTime (fst (snd ?X)) = 5000"
    using geocode_run(3) [OF geocode_projections, of ?rt "''London''" "''gb''" nominatimGeocoder "world_at 5000"]
    by (simp add: nominatimGeocoder_def world_at_def)
  have t2: "lastRequestTime (fst (snd ?Y)) = 6000"
    using geocode_run(3) [OF geocode_projections, of ?rt "''Leeds''" "''gb''" "fst (snd ?X)" "(snd (snd ?X))\<lparr>clock := 5200\<rparr>"]
    by (simp add: t1 stub_timer_lag timeout_ms_def)
  have e1: "?X = (fst ?X, fst (snd ?X), snd (snd ?X))" and e2: "?Y = (fst ?Y, fst (snd ?Y), snd (snd ?Y))"
    by simp_all
  have l0: "lookups (world_at 5000) = []"
    by (simp add: world_at_def)
  have 3: "lastRequestTime (fst (snd ?X)) \<le> clock ((snd (snd ?X))\<lparr>clock := 5200\<rparr>)"
    by (simp add: t1)
  have 4: "0 \<le> timer_lag ?rt (clock ((snd (snd ?X))\<lparr>clock := 5200\<rparr>))
                  (history ((snd (snd ?X))\<lparr>clock := 5200\<rparr>))"
    by (simp add: stub_timer_lag)
  from successive_dispatches_are_spaced [OF e1 e2 3 4]
  have "lookups (snd (snd ?X)) = lookups (world_at 5000) @ [(lastRequestTime (fst (snd ?X)), ''London'', ''gb'')]"
    and "lookups (snd (snd ?Y)) =
           lookups ((snd (snd ?X))\<lparr>clock := 5200\<rparr>) @ [(lastRequestTime (fst (snd ?Y)), ''Leeds'', ''gb'')]"
    by blast+
  then show ?thesis
    by (simp add: t1 t2 l0)
qed

text \<open>
  C2. One call of the limiter, with \<open>elapsed = clock w - lastRequestTime g\<close>. If
  \<open>elapsed < 1000\<close> the call waits on exactly one timer, set to \<open>1000 - elapsed\<close>
  milliseconds, and the dispatch happens when that timer has fired (for a delay in the
  range that Node accepts: the delay after the start of the call, plus the lateness of
  the timer). Otherwise it waits on no timer and dispatches at once. In both cases the
  recorded timestamp is the clock reading at which the lookup client is invoked, not
  the reading at which its answer arrives: the lookup runs in a world \<open>w1\<close> whose
  clock is the recorded timestamp, and the invocation is logged with that time.
\<close>

theorem limiter_waits_out_the_interval:
  assumes "geocode rt cityName countryCode (g, w) = (r, g', w')"
  shows "(clock w - lastRequestTime g < 1000 \<longrightarrow>
            waits (history w') = waits (history w) @ [(clock w, 1000 - (clock w - lastRequestTime g))] \<and>
            (1000 - (clock w - lastRequestTime g) \<le> 2147483647 \<longrightarrow>
               lastRequestTime g' =
                 clock w + (1000 - (clock w - lastRequestTime g)) + timer_lag rt (clock w) (history w))) \<and>
         (\<not> clock w - lastRequestTime g < 1000 \<longrightarrow>
            waits (history w') = waits (history w) \<and> lastRequestTime g' = clock w) \<and>
         lookups w' = lookups w @ [(lastRequestTime g', cityName, countryCode)] \<and>
         (\<exists>w1. clock w1 = lastRequestTime g' \<and> geocodeUKCity rt cityName countryCode w1 = (r, w'))"
  using geocode_run [OF assms] by (simp add: timeout_ms_def)

theorem limiter_waits_out_the_interval_witness:
  "waits (history (snd (snd (geocode (stub_runtime (json_reply (JArray [london]))) ''Leeds'' ''gb''
                              (\<lparr>lastRequestTime = 5000\<rparr>, world_at 5200))))) = [(5200, 800)] \<and>
   lastRequestTime (fst (snd (geocode (stub_runtime (json_reply (JArray [london]))) ''Leeds'' ''gb''
                              (\<lparr>lastRequestTime = 5000\<rparr>, world_at 5200)))) = 6000 \<and>
   clock (snd (snd (geocode (stub_runtime (json_reply (JArray [london]))) ''Leeds'' ''gb''
                              (\<lparr>lastRequestTime = 5000\<rparr>, world_at 5200)))) = 6045 \<and>
   lookups (snd (snd (geocode (stub_runtime (json_reply (JArray [london]))) ''Leeds'' ''gb''
                              (\<lparr>lastRequestTime = 5000\<rparr>, world_at 5200)))) = [(6000, ''Leeds'', ''gb'')] \<and>
   waits (history (snd (snd (geocode (stub_runtime (json_reply (JArray [london]))) ''Leeds'' ''gb''
                              (\<lparr>lastRequestTime = 3700\<rparr>, world_at 5200))))) = [] \<and>
   lastRequestTime (fst (snd (geocode (stub_runtime (json_reply (JArray [london]))) ''Leeds'' ''gb''
                              (\<lparr>lastRequestTime = 3700\<rparr>, world_at 5200)))) = 5200"
proof -
  let ?rt = "stub_runtime (json_reply (JArray [london]))"
  let ?X = "geocode ?rt ''Leeds'' ''gb'' (\<lparr>lastRequestTime = 5000\<rparr>, world_at 5200)"
  let ?Y = "geocode ?rt ''Leeds'' ''gb'' (\<lparr>lastRequestTime = 3700\<rparr>, world_at 5200)"
  have e1: "?X = (fst ?X, fst (snd ?X), snd (snd ?X))" and e2: "?Y = (fst ?Y, fst (snd ?Y), snd (snd ?Y))"
    by simp_all
  note a = limiter_waits_out_the_interval [OF e1]
  note b = limiter_waits_out_the_interval [OF e2]
  have c: "clock (snd (snd (geocode ?rt ''Leeds'' ''gb'' (\<lparr>lastRequestTime = 5000\<rparr>, world_at 5200)))) =
        lastRequestTime (fst (snd (geocode ?rt ''Leeds'' ''gb'' (\<lparr>lastRequestTime = 5000\<rparr>, world_at 5200)))) + 45"
    by (rule stub_geocode_clock)
  from a b c show ?thesis
    by (simp add: world_at_def stub_timer_lag)
qed

text \<open>
  C9. A fresh limiter has the timestamp 0, so its first call waits on a timer exactly
  when the clock reads less than 1000. In that case it waits on one timer of
  \<open>1000 - clock w\<close> milliseconds, the lookup client runs in the world after that
  wait, and the dispatch is later than the call whenever the timer does not fire early.
  With a clock of at least 1000 (epoch milliseconds) the call waits on no timer: the
  lookup client runs in the very world the call was made in, and the dispatch time is
  the clock reading of the call.
\<close>

theorem fresh_limiter_first_call:
  assumes "geocode rt cityName countryCode (nominatimGeocoder, w) = (r, g', w')"
  shows "lastRequestTime nominatimGeocoder = 0 \<and>
         (waits (history w') \<noteq> waits (history w)) = (clock w < 1000) \<and>
         (clock w < 1000 \<longrightarrow>
            waits (history w') = waits (history w) @ [(clock w, 1000 - clock w)] \<and>
            geocodeUKCity rt cityName countryCode (setTimeout_await rt (1000 - clock w) w) = (r, w') \<and>
            lastRequestTime g' =
              clock w + timeout_ms (1000 - clock w) + timer_lag rt (clock w) (history w) \<and>
            lookups w' = lookups w @ [(lastRequestTime g', cityName, countryCode)] \<and>
            (0 \<le> timer_lag rt (clock w) (history w) \<longrightarrow> clock w < lastRequestTime g')) \<and>
         (1000 \<le> clock w \<longrightarrow>
            waits (history w') = waits (history w) \<and>
            geocodeUKCity rt cityName countryCode w = (r, w') \<and>
            lastRequestTime g' = clock w \<and>
            lookups w' = lookups w @ [(clock w, cityName, countryCode)])"
proof -
  have z: "lastRequestTime nominatimGeocoder = 0"
    by (simp add: nominatimGeocoder_def)
  note run = geocode_run(1-3) [OF assms]
  note del = geocode_delegates(1) [OF assms]
  have "(waits (history w') \<noteq> waits (history w)) = (clock w < 1000)"
    using run(2) by (simp add: z)
  moreover have "clock w < 1000 \<longrightarrow>
            waits (history w') = waits (history w) @ [(clock w, 1000 - clock w)] \<and>
            geocodeUKCity rt cityName countryCode (setTimeout_await rt (1000 - clock w) w) = (r, w') \<and>
            lastRequestTime g' =
              clock w + timeout_ms (1000 - clock w) + timer_lag rt (clock w) (history w) \<and>
            lookups w' = lookups w @ [(lastRequestTime g', cityName, countryCode)] \<and>
            (0 \<le> timer_lag rt (clock w) (history w) \<longrightarrow> clock w < lastRequestTime g')"
    using run del by (auto simp: z timeout_ms_def)
  moreover have "1000 \<le> clock w \<longrightarrow>
            waits (history w') = waits (history w) \<and>
            geocodeUKCity rt cityName countryCode w = (r, w') \<and>
            lastRequestTime g' = clock w \<and>
            lookups w' = lookups w @ [(clock w, cityName, countryCode)]"
    using run del by (auto simp: z)
  ultimately show ?thesis using z by (intro conjI)
qed

theorem fresh_limiter_first_call_witness:
  "1000 \<le> clock (world_at 1700000000000) \<and>
   waits (history (snd (snd (geocode (stub_runtime (json_reply (JArray [london]))) ''London'' ''gb''
                              (nominatimGeocoder, world_at 1700000000000))))) = [] \<and>
   lastRequestTime (fst (snd (geocode (stub_runtime (json_reply (JArray [london]))) ''London'' ''gb''
                              (nominatimGeocoder, world_at 1700000000000)))) = 1700000000000 \<and>
   clock (world_at 400) < 1000 \<and>
   waits (history (snd (snd (geocode (stub_runtime (json_reply (JArray [london]))) ''London'' ''gb''
                              (nominatimGeocoder, world_at 400))))) = [(400, 600)] \<and>
   lastRequestTime (fst (snd (geocode (stub_runtime (json_reply (JArray [london]))) ''London'' ''gb''
                              (nominatimGeocoder, world_at 400)))) = 1000"
proof -
  let ?rt = "stub_runtime (json_reply (JArray [london]))"
  let ?X = "geocode ?rt ''London'' ''gb'' (nominatimGeocoder, world_at 1700000000000)"
  let ?Y = "geocode ?rt ''London'' ''gb'' (nominatimGeocoder, world_at 400)"
  have e1: "?X = (fst ?X, fst (snd ?X), snd (snd ?X))" and e2: "?Y = (fst ?Y, fst (snd ?Y), snd (snd ?Y))"
    by simp_all
  have c1: "clock (world_at 1700000000000) = 1700000000000" and c2: "clock (world_at 400) = 400"
    and h1: "history (world_at 1700000000000) = []" and h2: "history (world_at 400) = []"
    by (simp_all add: world_at_def)
  from fresh_limiter_first_call [OF e1] fresh_limiter_first_call [OF e2]
  show ?thesis
    by (simp add: c1 c2 h1 h2 stub_timer_lag timeout_ms_def)
qed

section \<open>The batch orchestrator\<close>

lemma read_entry_assign:
  "read_entry (assign results key v) k = (if k = key then Some v else read_entry results k)"
  by (simp add: read_entry_def assign_def)

lemma keys_assign:
  "keys (assign results key v) = (if key = ''__proto__'' then keys results else insert key (keys results))"
  by (simp add: keys_def assign_def)

lemma batch_loop_append:
  "batch_loop lookup (xs @ ys) results s =
     batch_loop lookup ys (fst (batch_loop lookup xs results s)) (snd (batch_loop lookup xs results s))"
  by (induction xs arbitrary: results s) (simp_all split: prod.splits sum.splits)

lemma batch_loop_read_other:
  "n \<notin> set cityNames \<Longrightarrow>
   read_entry (fst (batch_loop lookup cityNames results s)) n = read_entry results n"
  by (induction cityNames arbitrary: results s)
     (auto simp: read_entry_assign split: prod.splits sum.splits)

lemma batch_loop_keys:
  "keys (fst (batch_loop lookup cityNames results s)) = keys results \<union> (set cityNames - {''__proto__''})"
  by (induction cityNames arbitrary: results s)
     (auto simp: keys_assign split: prod.splits sum.splits)

lemma batch_loop_step:
  "fst (batch_loop lookup [n] results s) =
     assign results n
       (case fst (lookup n s) of
          Inr r \<Rightarrow> r
        | Inl err \<Rightarrow>
            Failed \<lparr>error = ''Failed to geocode '' @ n,
                    details = Some (case err of ErrorInstance message \<Rightarrow> message
                                    | NonError \<Rightarrow> ''Unknown error'')\<rparr>)"
  by (simp add: batch_catch_def split: prod.splits sum.splits)

lemma batch_loop_last_occurrence:
  assumes "n \<notin> set rest"
  shows "read_entry (fst (batch_loop lookup (before @ n # rest) results s)) n =
           Some (case fst (lookup n (snd (batch_loop lookup before results s))) of
                   Inr r \<Rightarrow> r
                 | Inl err \<Rightarrow>
                     Failed \<lparr>error = ''Failed to geocode '' @ n,
                             details = Some (case err of ErrorInstance message \<Rightarrow> message
                                             | NonError \<Rightarrow> ''Unknown error'')\<rparr>)"
proof -
  let ?r = "fst (batch_loop lookup before results s)"
  let ?s = "snd (batch_loop lookup before results s)"
  have "batch_loop lookup (before @ [n] @ rest) results s =
          batch_loop lookup rest (fst (batch_loop lookup [n] ?r ?s)) (snd (batch_loop lookup [n] ?r ?s))"
    by (simp only: batch_loop_append)
  then have "read_entry (fst (batch_loop lookup (before @ n # rest) results s)) n =
          read_entry (fst (batch_loop lookup [n] ?r ?s)) n"
    using assms by (simp add: batch_loop_read_other)
  also have "\<dots> = Some (case fst (lookup n ?s) of
                   Inr r \<Rightarrow> r
                 | Inl err \<Rightarrow>
                     Failed \<lparr>error = ''Failed to geocode '' @ n,
                             details = Some (case err of ErrorInstance message \<Rightarrow> message
                                             | NonError \<Rightarrow> ''Unknown error'')\<rparr>)"
    unfolding batch_loop_step by (simp add: read_entry_assign)
  finally show ?thesis .
qed

lemma keys_empty_object: "keys empty_object = {}"
  by (simp add: keys_def empty_object_def)

lemma batch_keys:
  "keys (fst (batchGeocodeUKCities rt cityNames useRateLimiting s)) = set cityNames - {''__proto__''}"
  by (simp add: batchGeocodeUKCities_def batch_loop_keys keys_empty_object)

lemma batch_keys_without_proto:
  "''__proto__'' \<notin> set cityNames \<Longrightarrow>
   keys (fst (batchGeocodeUKCities rt cityNames useRateLimiting s)) = set cityNames"
  by (simp add: batch_keys)

text \<open>
  The batch invokes the lookup client once per name, in input order, whichever of the
  two calls it uses.
\<close>

lemma limited_call_lookups:
  "lookups (snd (snd (limited_call rt cityName (g, w)))) =
     lookups w @ [(lastRequestTime (fst (snd (limited_call rt cityName (g, w)))), cityName, ''gb'')]"
proof -
  have "geocode rt cityName ''gb'' (g, w) =
          (fst (geocode rt cityName ''gb'' (g, w)),
           fst (snd (limited_call rt cityName (g, w))),
           snd (snd (limited_call rt cityName (g, w))))"
    by (simp add: limited_call_def split: prod.splits)
  then show ?thesis by (rule geocode_run)
qed

lemma direct_call_lookups:
  "lookups (snd (snd (direct_call rt cityName (g, w)))) = lookups w @ [(clock w, cityName, ''gb'')]"
proof -
  have "snd (snd (direct_call rt cityName (g, w))) = snd (geocodeUKCity rt cityName ''gb'' w)"
    by (simp add: direct_call_def split: prod.splits)
  then show ?thesis by (simp add: geocodeUKCity_effects)
qed

lemma batch_loop_order:
  assumes "\<And>c g w. \<exists>t. lookups (snd (snd (call c (g, w)))) = lookups w @ [(t, c, ''gb'')]"
  shows "map (\<lambda>(t, c, code). c) (lookups (snd (snd (batch_loop call cityNames results (g, w))))) =
           map (\<lambda>(t, c, code). c) (lookups w) @ cityNames"
proof (induction cityNames arbitrary: results g w)
  case Nil
  then show ?case by simp
next
  case (Cons c cs)
  obtain o' g' w' where step: "call c (g, w) = (o', g', w')"
    by (cases "call c (g, w)") auto
  from assms [of c g w] step obtain t where "lookups w' = lookups w @ [(t, c, ''gb'')]"
    by auto
  with Cons.IH [of _ g' w'] step show ?case
    by (cases o') simp_all
qed

lemma batch_processes_in_input_order:
  "map (\<lambda>(t, c, code). c)
     (lookups (snd (snd (batchGeocodeUKCities rt cityNames useRateLimiting (g, w))))) =
   map (\<lambda>(t, c, code). c) (lookups w) @ cityNames"
  unfolding batchGeocodeUKCities_def
  by (cases useRateLimiting)
     (simp_all add: batch_loop_order limited_call_lookups direct_call_lookups)

text \<open>
  With rate limiting, in an environment where timers do not fire early and awaiting the
  network never sets the clock back, all invocations of a batch are at least 1000 ms
  apart, and the first is at least 1000 ms after the timestamp the limiter held.
\<close>

lemma geocodeUKCity_clock_mono:
  assumes "\<And>t h u hs. 0 \<le> after_ms (network rt t h u hs)"
      and "\<And>t h u hs resp. settles (network rt t h u hs) = Inr resp \<Longrightarrow> 0 \<le> body_ms resp"
  shows "clock w \<le> clock (snd (geocodeUKCity rt cityName countryCode w))"
proof (cases "encodeURIComponent rt (trim rt cityName)")
  case (Inl e)
  then show ?thesis
    by (simp add: geocodeUKCity_snd geocodeUKCity_try_def)
next
  case (Inr q)
  let ?rp = "network rt (clock w) (history w) (search_url q countryCode) request_headers"
  have a: "0 \<le> after_ms ?rp" by (rule assms(1))
  show ?thesis
  proof (cases "settles ?rp")
    case (Inl e)
    with Inr a show ?thesis
      by (simp add: geocodeUKCity_snd geocodeUKCity_try_def fetch_result)
  next
    case r: (Inr resp)
    then have "0 \<le> body_ms resp" by (rule assms(2))
    with Inr r a show ?thesis
      by (simp add: geocodeUKCity_snd geocodeUKCity_try_def fetch_result response_json_def
               split: sum.splits)
  qed
qed

lemma batch_spaced:
  assumes punctual: "\<And>t h. 0 \<le> timer_lag rt t h"
      and latency: "\<And>t h u hs. 0 \<le> after_ms (network rt t h u hs)"
      and reading: "\<And>t h u hs resp. settles (network rt t h u hs) = Inr resp \<Longrightarrow> 0 \<le> body_ms resp"
  shows "lastRequestTime g \<le> clock w \<Longrightarrow>
         \<exists>new. lookups (snd (snd (batch_loop (limited_call rt) cityNames results (g, w)))) =
                  lookups w @ new \<and>
               map (\<lambda>(t, c, code). c) new = cityNames \<and>
               spaced (lastRequestTime g) (map fst new)"
proof (induction cityNames arbitrary: results g w)
  case Nil
  then show ?case by simp
next
  case (Cons c cs)
  obtain r g' w' where run: "geocode rt c ''gb'' (g, w) = (r, g', w')"
    by (cases "geocode rt c ''gb'' (g, w)") auto
  note facts = geocode_run [OF run]
  have step: "limited_call rt c (g, w) = (Inr r, g', w')"
    by (simp add: limited_call_def run)
  have "0 \<le> timer_lag rt (clock w) (history w)"
    by (rule punctual)
  with facts(3) Cons.prems
  have gap: "lastRequestTime g + 1000 \<le> lastRequestTime g'"
    by (simp add: timeout_ms_def split: if_splits)
  from facts(4) obtain w1 where "clock w1 = lastRequestTime g'"
    and "geocodeUKCity rt c ''gb'' w1 = (r, w')"
    by blast
  moreover have "clock w1 \<le> clock (snd (geocodeUKCity rt c ''gb'' w1))"
    by (rule geocodeUKCity_clock_mono [OF latency reading])
  ultimately have "lastRequestTime g' \<le> clock w'"
    by simp
  then have "\<exists>new. lookups (snd (snd (batch_loop (limited_call rt) cs (assign results c r) (g', w')))) =
                  lookups w' @ new \<and>
               map (\<lambda>(t, c, code). c) new = cs \<and>
               spaced (lastRequestTime g') (map fst new)"
    by (rule Cons.IH)
  then obtain new where n: "lookups (snd (snd (batch_loop (limited_call rt) cs (assign results c r) (g', w')))) =
                         lookups w' @ new"
    and o: "map (\<lambda>(t, c, code). c) new = cs"
    and sp: "spaced (lastRequestTime g') (map fst new)"
    by blast
  have "lookups (snd (snd (batch_loop (limited_call rt) (c # cs) results (g, w)))) =
          lookups w @ ((lastRequestTime g', c, ''gb'') # new)"
    by (simp add: step n facts(1))
  moreover have "map (\<lambda>(t, c, code). c) ((lastRequestTime g', c, ''gb'') # new) = c # cs"
    by (simp add: o)
  moreover have "spaced (lastRequestTime g) (map fst ((lastRequestTime g', c, ''gb'') # new))"
    by (simp add: gap sp)
  ultimately show ?case
    by (intro exI [of _ "(lastRequestTime g', c, ''gb'') # new"] conjI)
qed

lemma batch_rate_limited:
  assumes "\<And>t h. 0 \<le> timer_lag rt t h"
      and "\<And>t h u hs. 0 \<le> after_ms (network rt t h u hs)"
      and "\<And>t h u hs resp. settles (network rt t h u hs) = Inr resp \<Longrightarrow> 0 \<le> body_ms resp"
      and "lastRequestTime g \<le> clock w"
  shows "\<exists>new. lookups (snd (snd (batchGeocodeUKCities rt cityNames True (g, w)))) = lookups w @ new \<and>
               map (\<lambda>(t, c, code). c) new = cityNames \<and>
               spaced (lastRequestTime g) (map fst new)"
  unfolding batchGeocodeUKCities_def using batch_spaced [OF assms] by simp







text \<open>
  C8. The key set of the result is not the set of distinct input names when the name
  \<^verbatim>\<open>__proto__\<close> is among them: the assignment \<^verbatim>\<open>results['__proto__'] = ...\<close> goes
  to the setter inherited from \<^verbatim>\<open>Object.prototype\<close>, replaces the prototype of the
  result by the outcome, and creates no key (\<open>batch_keys\<close> above gives the key set
  for every input, \<open>batch_keys_without_proto\<close> the claim for lists without that
  name). The run below is the batch over \<^verbatim>\<open>['London', '__proto__']\<close>.
\<close>

theorem proto_name_gets_no_key:
  "keys (fst (batchGeocodeUKCities (stub_runtime (json_reply (JArray [london])))
                [''London'', ''__proto__''] True (nominatimGeocoder, world_at 5000))) = {''London''} \<and>
   set [''London'', ''__proto__''] = {''London'', ''__proto__''} \<and>
   (\<exists>outcome. proto (fst (batchGeocodeUKCities (stub_runtime (json_reply (JArray [london])))
                             [''London'', ''__proto__''] True (nominatimGeocoder, world_at 5000))) =
                Some outcome)"
proof -
  let ?rt = "stub_runtime (json_reply (JArray [london]))"
  let ?result = "fst (batchGeocodeUKCities ?rt [''London'', ''__proto__''] True (nominatimGeocoder, world_at 5000))"
  have "keys ?result = {''London''}"
    by (auto simp: batch_keys)
  moreover have "\<exists>outcome. read_entry ?result ''__proto__'' = Some outcome"
    using batch_loop_last_occurrence [of "''__proto__''" "[]" "limited_call ?rt" "[''London'']"]
    by (simp add: batchGeocodeUKCities_def)
  then have "\<exists>outcome. proto ?result = Some outcome"
    by (simp add: read_entry_def)
  ultimately show ?thesis
    by auto
qed

end
